theory Spec2Isabelle
  imports Complex_Main "HOL-Library.Multiset"
begin

section \<open>Data model of \<open>randomizer.py\<close>\<close>


fun dict_set :: "('k \<times> 'v) list \<Rightarrow> 'k \<Rightarrow> 'v \<Rightarrow> ('k \<times> 'v) list" where
  "dict_set [] k v = [(k, v)]"
| "dict_set ((k', v') # d) k v = (if k' = k then (k, v) # d else (k', v') # dict_set d k v)"

record answer =
  ans_text :: string
  is_correct :: bool

record question =
  question_text :: string
  sheet_name :: string
  num_columns_alternatives :: int
  answers :: "answer list"
  punteggio_corretta :: "real option"
  punteggio_errata :: "real option"
  punteggio_non_data :: "real option"

record variant =
  variant_id :: string
  questions :: "question list"

text \<open>The keys of \<open>config.json\<close> that the modelled functions read; \<open>None\<close> is an absent key.\<close>

record config =
  cfg_default_correct_score :: "real option"
  cfg_default_wrong_score :: "real option"
  cfg_default_no_answer_score :: "real option"
  cfg_passing_threshold :: "real option"
  cfg_num_variants :: "int option"
  cfg_num_potential_variants :: "int option"
  cfg_choice_label_format :: "string option"

text \<open>
  A spreadsheet cell as pandas hands it over: \<open>NaN\<close> for an empty cell, otherwise a value,
  kept as the text that \<open>str\<close> gives for it. A row is the list of its columns in order;
  \<open>row.get\<close> gives \<open>None\<close> for a column the sheet does not have.
\<close>

datatype cell = NaN | Val string

type_synonym row = "(string \<times> cell) list"

definition row_get :: "row \<Rightarrow> string \<Rightarrow> cell option" where
  "row_get r c = map_of r c"

definition row_index :: "row \<Rightarrow> string list" where
  "row_index r = map fst r"

fun py_str :: "cell option \<Rightarrow> string" where
  "py_str None = ''None''"
| "py_str (Some NaN) = ''nan''"
| "py_str (Some (Val s)) = s"

fun pd_isna :: "cell option \<Rightarrow> bool" where
  "pd_isna None = True"
| "pd_isna (Some NaN) = True"
| "pd_isna (Some (Val s)) = False"

text \<open>\<open>str.strip\<close> and \<open>str.upper\<close> on the ASCII range.\<close>

definition is_space :: "char \<Rightarrow> bool" where
  "is_space c = (let n = (of_char c :: nat) in n = 32 \<or> (9 \<le> n \<and> n \<le> 13) \<or> (28 \<le> n \<and> n \<le> 31))"

definition strip :: "string \<Rightarrow> string" where
  "strip s = rev (dropWhile is_space (rev (dropWhile is_space s)))"

definition upper_char :: "char \<Rightarrow> char" where
  "upper_char c =
     (case map_of (zip ''abcdefghijklmnopqrstuvwxyz'' ''ABCDEFGHIJKLMNOPQRSTUVWXYZ'') c of
        None \<Rightarrow> c | Some u \<Rightarrow> u)"

definition upper :: "string \<Rightarrow> string" where
  "upper s = map upper_char s"

record answer_detail =
  sheet :: string
  response :: string
  correct :: string
  points :: real

text \<open>
  One entry of \<open>test_results\<close>. The last three keys are added by \<open>analyze_results\<close>;
  \<open>None\<close> is a key not yet present.
\<close>

record result =
  correct_count :: nat
  wrong_count :: nat
  blank_count :: nat
  correct_score :: real
  wrong_score :: real
  blank_score :: real
  total_score :: real
  max_possible_score :: real
  percentage :: real
  res_answers :: "(string \<times> answer_detail) list"
  res_variant_id :: string
  z_score :: "real option"
  percentile :: "real option"
  stanine :: "string option"

text \<open>
  One entry of \<open>question_analytics\<close>: the three tallies of \<open>correct_tests\<close> and the keys
  that \<open>analyze_questions\<close> adds.
\<close>

record qstats =
  n_correct :: nat
  n_wrong :: nat
  n_blank :: nat
  total_answers :: "nat option"
  correct_pct :: "real option"
  wrong_pct :: "real option"
  blank_pct :: "real option"
  difficulty :: "real option"
  discrimination :: "real option"

record analysis =
  num_students :: nat
  average_score :: real
  median_score :: real
  std_deviation :: real
  min_score :: real
  max_score :: real
  quartiles :: "real list"
  an_passing_threshold :: real
  pass_rate :: real
  avg_correct_score :: real
  avg_wrong_score :: real
  avg_blank_score :: real
  avg_correct_count :: real
  avg_wrong_count :: real
  avg_blank_count :: real

text \<open>The attributes of a \<open>TestGeneratorAnalyzer\<close> instance.\<close>

record generator =
  gen_config :: config
  questions_data :: "question list"
  original_questions_order :: "string list"
  variants :: "variant list"
  variant_answer_keys :: "(string \<times> (string \<times> string) list) list"
  variant_question_mappings :: "(string \<times> (string \<times> string) list) list"
  student_responses :: "row list option"
  test_results :: "(cell option \<times> result) list"
  analysis_results :: "analysis option"
  default_correct_score :: real
  default_wrong_score :: real
  default_no_answer_score :: real
  passing_threshold :: real
  question_analytics :: "(string \<times> qstats) list"

section \<open>Construction\<close>

text \<open>
  \<open>__init__\<close> first calls \<open>_load_config\<close>, which stores the configured scores in the
  instance, and then assigns the literal values 4, 0, 1 and 0.58 to the same attributes.
\<close>

definition load_config_scores :: "config \<Rightarrow> real \<times> real \<times> real \<times> real" where
  "load_config_scores cfg =
     (case cfg_default_correct_score cfg of None \<Rightarrow> 4 | Some x \<Rightarrow> x,
      case cfg_default_wrong_score cfg of None \<Rightarrow> 0 | Some x \<Rightarrow> x,
      case cfg_default_no_answer_score cfg of None \<Rightarrow> 1 | Some x \<Rightarrow> x,
      case cfg_passing_threshold cfg of None \<Rightarrow> 58 / 100 | Some x \<Rightarrow> x)"

definition init :: "config \<Rightarrow> generator" where
  "init cfg =
     (let (dc, dw, dn, pt) = load_config_scores cfg;
          self = \<lparr> gen_config = cfg, questions_data = [], original_questions_order = [],
                   variants = [], variant_answer_keys = [], variant_question_mappings = [],
                   student_responses = None, test_results = [], analysis_results = None,
                   default_correct_score = dc, default_wrong_score = dw,
                   default_no_answer_score = dn, passing_threshold = pt,
                   question_analytics = [] \<rparr>
      in self\<lparr> default_correct_score := 4, default_wrong_score := 0,
               default_no_answer_score := 1, passing_threshold := 58 / 100 \<rparr>)"

section \<open>Rounding\<close>

text \<open>\<open>round(x, 2)\<close>: to the nearest hundredth, a tie to the even neighbour.\<close>

definition round2 :: "real \<Rightarrow> real" where
  "round2 x =
     (let y = x * 100; f = \<lfloor>y\<rfloor>; d = y - of_int f
      in of_int (if d < 1 / 2 then f else if 1 / 2 < d then f + 1
                 else if even f then f else f + 1) / 100)"

section \<open>Grading: \<open>correct_tests\<close>\<close>

text \<open>The local variables of the loop over one student's answer columns.\<close>

record grade_acc =
  a_correct_count :: nat
  a_wrong_count :: nat
  a_blank_count :: nat
  a_correct_score :: real
  a_wrong_score :: real
  a_blank_score :: real
  a_max_possible_score :: real
  a_student_answers :: "(string \<times> answer_detail) list"
  a_question_stats :: "(string \<times> qstats) list"

definition empty_stats :: qstats where
  "empty_stats = \<lparr> n_correct = 0, n_wrong = 0, n_blank = 0, total_answers = None,
     correct_pct = None, wrong_pct = None, blank_pct = None, difficulty = None,
     discrimination = None \<rparr>"

text \<open>\<open>question_stats[sheet_name][k] += 1\<close> on the \<open>defaultdict\<close>.\<close>

definition stats_bump :: "(qstats \<Rightarrow> qstats) \<Rightarrow> (string \<times> qstats) list \<Rightarrow> string \<Rightarrow> (string \<times> qstats) list" where
  "stats_bump f st sh = dict_set st sh (f (case map_of st sh of None \<Rightarrow> empty_stats | Some s \<Rightarrow> s))"

definition question_data_map :: "generator \<Rightarrow> string \<Rightarrow> (string \<times> question) list" where
  "question_data_map self vid =
     (let variant_questions = (case find (\<lambda>v. variant_id v = vid) (variants self) of
                                 None \<Rightarrow> [] | Some v \<Rightarrow> questions v)
      in foldl (\<lambda>m q. dict_set m (sheet_name q) q) [] variant_questions)"

definition score_or_default :: "question option \<Rightarrow> (question \<Rightarrow> real option) \<Rightarrow> real \<Rightarrow> real" where
  "score_or_default question_data field dflt =
     (case question_data of None \<Rightarrow> dflt
      | Some q \<Rightarrow> (case field q of None \<Rightarrow> dflt | Some x \<Rightarrow> x))"

definition grade_col ::
  "generator \<Rightarrow> (string \<times> string) list \<Rightarrow> (string \<times> string) list \<Rightarrow> (string \<times> question) list
     \<Rightarrow> row \<Rightarrow> grade_acc \<Rightarrow> string \<Rightarrow> grade_acc" where
  "grade_col self key_mapping question_mapping qdm r acc col =
     (let student_ans = strip (case row_get r col of None \<Rightarrow> [] | Some c \<Rightarrow> py_str (Some c))
      in case (map_of key_mapping col, map_of question_mapping col) of
           (Some correct_letter, Some sh) \<Rightarrow>
             (let question_data = map_of qdm sh;
                  punto_corretta = score_or_default question_data punteggio_corretta (default_correct_score self);
                  punto_errata = score_or_default question_data punteggio_errata (default_wrong_score self);
                  punto_non_data = score_or_default question_data punteggio_non_data (default_no_answer_score self);
                  acc = acc\<lparr> a_max_possible_score := a_max_possible_score acc + punto_corretta \<rparr>
              in if pd_isna (row_get r col) \<or> student_ans = [] then
                   acc\<lparr> a_blank_count := a_blank_count acc + 1,
                        a_blank_score := a_blank_score acc + punto_non_data,
                        a_student_answers := dict_set (a_student_answers acc) col
                          \<lparr> sheet = sh, response = ''blank'', correct = correct_letter, points = punto_non_data \<rparr>,
                        a_question_stats := stats_bump (\<lambda>s. s\<lparr> n_blank := n_blank s + 1 \<rparr>) (a_question_stats acc) sh \<rparr>
                 else if upper student_ans = upper correct_letter then
                   acc\<lparr> a_correct_count := a_correct_count acc + 1,
                        a_correct_score := a_correct_score acc + punto_corretta,
                        a_student_answers := dict_set (a_student_answers acc) col
                          \<lparr> sheet = sh, response = student_ans, correct = correct_letter, points = punto_corretta \<rparr>,
                        a_question_stats := stats_bump (\<lambda>s. s\<lparr> n_correct := n_correct s + 1 \<rparr>) (a_question_stats acc) sh \<rparr>
                 else
                   acc\<lparr> a_wrong_count := a_wrong_count acc + 1,
                        a_wrong_score := a_wrong_score acc + punto_errata,
                        a_student_answers := dict_set (a_student_answers acc) col
                          \<lparr> sheet = sh, response = student_ans, correct = correct_letter, points = punto_errata \<rparr>,
                        a_question_stats := stats_bump (\<lambda>s. s\<lparr> n_wrong := n_wrong s + 1 \<rparr>) (a_question_stats acc) sh \<rparr>)
         | _ \<Rightarrow> acc)"

definition answer_cols :: "row \<Rightarrow> string list" where
  "answer_cols r = filter (\<lambda>col. col \<notin> set [''student_id'', ''variant_id'']) (row_index r)"

definition init_acc :: "(string \<times> qstats) list \<Rightarrow> grade_acc" where
  "init_acc st = \<lparr> a_correct_count = 0, a_wrong_count = 0, a_blank_count = 0,
     a_correct_score = 0, a_wrong_score = 0, a_blank_score = 0, a_max_possible_score = 0,
     a_student_answers = [], a_question_stats = st \<rparr>"

definition row_result :: "string \<Rightarrow> grade_acc \<Rightarrow> result" where
  "row_result vid acc =
     (let total = a_correct_score acc + a_wrong_score acc + a_blank_score acc;
          pct = (if 0 < a_max_possible_score acc
                 then round2 (total / a_max_possible_score acc * 100) else 0)
      in \<lparr> correct_count = a_correct_count acc, wrong_count = a_wrong_count acc,
           blank_count = a_blank_count acc, correct_score = a_correct_score acc,
           wrong_score = a_wrong_score acc, blank_score = a_blank_score acc,
           total_score = total, max_possible_score = a_max_possible_score acc,
           percentage = pct, res_answers = a_student_answers acc, res_variant_id = vid,
           z_score = None, percentile = None, stanine = None \<rparr>)"

text \<open>The body of the loop over the rows, for a row whose variant is in both registries.\<close>

definition grade_row ::
  "generator \<Rightarrow> row \<Rightarrow> string \<Rightarrow> (string \<times> string) list \<Rightarrow> (string \<times> string) list
     \<Rightarrow> (string \<times> qstats) list \<Rightarrow> grade_acc" where
  "grade_row self r vid key_mapping question_mapping st =
     foldl (grade_col self key_mapping question_mapping (question_data_map self vid) r)
       (init_acc st) (answer_cols r)"

datatype message = Variant_not_found string "cell option"

text \<open>
  The state of the loop over the rows: \<open>self.test_results\<close>, the local \<open>question_stats\<close>
  and what was printed.
\<close>

type_synonym grading = "(cell option \<times> result) list \<times> (string \<times> qstats) list \<times> message list"

definition row_variant_id :: "row \<Rightarrow> string" where
  "row_variant_id r = strip (py_str (row_get r ''variant_id''))"

definition row_student_id :: "row \<Rightarrow> cell option" where
  "row_student_id r = row_get r ''student_id''"


definition correct_row :: "generator \<Rightarrow> grading \<Rightarrow> row \<Rightarrow> grading" where
  "correct_row self s r =
     (case s of (results, st, printed) \<Rightarrow>
        (let student_id = row_student_id r; vid = row_variant_id r
         in case (map_of (variant_answer_keys self) vid, map_of (variant_question_mappings self) vid) of
              (Some key_mapping, Some question_mapping) \<Rightarrow>
                (let acc = grade_row self r vid key_mapping question_mapping st
                 in (dict_set results student_id (row_result vid acc), a_question_stats acc, printed))
            | _ \<Rightarrow> (results, st, printed @ [Variant_not_found vid student_id])))"

definition correct_tests :: "generator \<Rightarrow> generator \<times> message list" where
  "correct_tests self =
     (case student_responses self of
        None \<Rightarrow> (self, [])
      | Some rows \<Rightarrow>
          (case foldl (correct_row self) (test_results self, [], []) rows of
             (results, st, printed) \<Rightarrow>
               (self\<lparr> test_results := results, question_analytics := st \<rparr>, printed)))"


section \<open>Library functions called by the analysis\<close>

text \<open>
  \<open>numpy.mean\<close>, \<open>numpy.std\<close> (population standard deviation), \<open>numpy.median\<close>,
  \<open>numpy.percentile\<close> (linear interpolation, the default) and
  \<open>scipy.stats.percentileofscore\<close> (kind \<open>rank\<close>, the default), on exact reals. The source
  calls them on non-empty lists only.
\<close>

definition np_mean :: "real list \<Rightarrow> real" where
  "np_mean xs = sum_list xs / real (length xs)"

definition np_std :: "real list \<Rightarrow> real" where
  "np_std xs = sqrt (np_mean (map (\<lambda>x. \<bar>x - np_mean xs\<bar> ^ 2) xs))"

definition np_median :: "real list \<Rightarrow> real" where
  "np_median xs =
     (let s = sort xs; n = length s
      in if odd n then s ! (n div 2) else (s ! (n div 2 - 1) + s ! (n div 2)) / 2)"

definition np_percentile :: "real list \<Rightarrow> real \<Rightarrow> real" where
  "np_percentile xs q =
     (let s = sort xs; n = length s; pos = q / 100 * real (n - 1);
          lo = nat \<lfloor>pos\<rfloor>; hi = min (lo + 1) (n - 1); g = pos - real lo
      in s ! lo + g * (s ! hi - s ! lo))"

definition percentileofscore :: "real list \<Rightarrow> real \<Rightarrow> real" where
  "percentileofscore a score =
     (let n = length a;
          left = length (filter (\<lambda>x. x < score) a);
          right = length (filter (\<lambda>x. x \<le> score) a)
      in real (left + right + (if left < right then 1 else 0)) * (50 / real n))"

text \<open>\<open>list.sort(key=..., reverse=True)\<close>: stable, largest key first.\<close>

definition sort_reverse :: "('a \<Rightarrow> real) \<Rightarrow> 'a list \<Rightarrow> 'a list" where
  "sort_reverse key xs = sort_key (\<lambda>x. - key x) xs"


section \<open>Analysis: \<open>analyze_results\<close> and \<open>analyze_questions\<close>\<close>

definition stanine_of :: "real list \<Rightarrow> real \<Rightarrow> string" where
  "stanine_of scores t =
     (let stanine_boundaries = map (np_percentile scores) [4, 11, 23, 40, 60, 77, 89, 96]
      in if t < stanine_boundaries ! 0 then ''F-''
         else if t < stanine_boundaries ! 1 then ''F''
         else if t < stanine_boundaries ! 2 then ''E''
         else if t < stanine_boundaries ! 3 then ''D''
         else if t < stanine_boundaries ! 4 then ''C''
         else if t < stanine_boundaries ! 5 then ''B''
         else if t < stanine_boundaries ! 6 then ''A''
         else if t < stanine_boundaries ! 7 then ''S''
         else ''S+'')"

definition student_metrics :: "real list \<Rightarrow> real \<Rightarrow> real \<Rightarrow> result \<Rightarrow> result" where
  "student_metrics scores avg_score std_dev result =
     (let z = (if std_dev \<noteq> 0 then (total_score result - avg_score) / std_dev else 0);
          pc = percentileofscore scores (total_score result)
      in result\<lparr> z_score := Some (round2 z), percentile := Some (round2 pc),
                 stanine := Some (stanine_of scores (total_score result)) \<rparr>)"

text \<open>The dictionary \<open>analysis_results\<close>, from the graded results and the threshold in percent.\<close>

definition summary :: "result list \<Rightarrow> real \<Rightarrow> analysis" where
  "summary rs threshold =
     (let scores = map total_score rs;
          percentages = map percentage rs;
          avg_score = np_mean scores;
          med_score = np_median scores;
          std_dev = np_std scores;
          passed = length (filter (\<lambda>p. threshold \<le> p) percentages);
          rate = (if percentages \<noteq> []
                  then round2 (real passed / real (length percentages) * 100) else 0)
      in \<lparr> num_students = length scores,
           average_score = round2 avg_score,
           median_score = round2 med_score,
           std_deviation = round2 std_dev,
           min_score = round2 (Min (set scores)),
           max_score = round2 (Max (set scores)),
           quartiles = map (\<lambda>q. round2 (np_percentile scores q)) [25, 50, 75],
           an_passing_threshold = threshold,
           pass_rate = rate,
           avg_correct_score = round2 (np_mean (map correct_score rs)),
           avg_wrong_score = round2 (np_mean (map wrong_score rs)),
           avg_blank_score = round2 (np_mean (map blank_score rs)),
           avg_correct_count = round2 (np_mean (map (\<lambda>r. real (correct_count r)) rs)),
           avg_wrong_count = round2 (np_mean (map (\<lambda>r. real (wrong_count r)) rs)),
           avg_blank_count = round2 (np_mean (map (\<lambda>r. real (blank_count r)) rs)) \<rparr>)"

definition analyze_results :: "generator \<Rightarrow> generator" where
  "analyze_results self =
     (if test_results self = [] then self
      else
        (let rs = map snd (test_results self);
             scores = map total_score rs;
             avg_score = np_mean scores;
             std_dev = np_std scores
         in self\<lparr> analysis_results := Some (summary rs (passing_threshold self * 100)),
                  test_results := map (\<lambda>(student_id, result).
                      (student_id, student_metrics scores avg_score std_dev result))
                    (test_results self) \<rparr>))"

definition answered_correctly :: "string \<Rightarrow> result \<Rightarrow> bool" where
  "answered_correctly sh result =
     list_ex (\<lambda>(q_num, ans_data). sheet ans_data = sh \<and> response ans_data \<noteq> ''blank''
                \<and> upper (response ans_data) = upper (correct ans_data))
       (res_answers result)"

text \<open>\<open>int(n * 0.27)\<close>\<close>

definition int_27_percent :: "nat \<Rightarrow> nat" where
  "int_27_percent n = nat \<lfloor>real n * 27 / 100\<rfloor>"

definition analyze_question :: "generator \<Rightarrow> string \<Rightarrow> qstats \<Rightarrow> qstats" where
  "analyze_question self sh stats =
     (let total = n_correct stats + n_wrong stats + n_blank stats
      in if total = 0 then stats
         else
           (let c_pct = round2 (real (n_correct stats) / real total * 100);
                w_pct = round2 (real (n_wrong stats) / real total * 100);
                b_pct = round2 (real (n_blank stats) / real total * 100);
                diff = 1 - real (n_correct stats) / real total;
                student_scores = sort_reverse (\<lambda>x. total_score (snd x)) (test_results self);
                n = length student_scores;
                upper_n = max 1 (int_27_percent n);
                lower_n = max 1 (int_27_percent n);
                upper_group = take upper_n student_scores;
                lower_group = drop (n - lower_n) student_scores;
                upper_correct = length (filter (\<lambda>(student_id, result). answered_correctly sh result) upper_group);
                lower_correct = length (filter (\<lambda>(student_id, result). answered_correctly sh result) lower_group);
                p_upper = (if 0 < upper_n then real upper_correct / real upper_n else 0);
                p_lower = (if 0 < lower_n then real lower_correct / real lower_n else 0);
                discr = p_upper - p_lower
            in stats\<lparr> total_answers := Some total, correct_pct := Some c_pct,
                       wrong_pct := Some w_pct, blank_pct := Some b_pct,
                       difficulty := Some (round2 diff),
                       discrimination := Some (round2 discr) \<rparr>))"

definition analyze_questions :: "generator \<Rightarrow> generator" where
  "analyze_questions self =
     (if question_analytics self = [] then self
      else self\<lparr> question_analytics :=
             map (\<lambda>(sh, stats). (sh, analyze_question self sh stats)) (question_analytics self) \<rparr>)"

section \<open>Phase 2 of \<open>main\<close>\<close>

text \<open>
  \<open>load_questions_from_excel\<close> reads the workbook and draws one row per sheet; its result,
  the list of questions it built, is an input here.
\<close>

definition load_questions :: "question list \<Rightarrow> generator \<Rightarrow> generator" where
  "load_questions qs self =
     self\<lparr> questions_data := qs, original_questions_order := map question_text qs \<rparr>"

text \<open>
  Phase 2 up to and including \<open>correct_tests\<close>: a fresh instance, the two registries read from
  \<open>question_mappings.json\<close>, the question bank, the submissions.
\<close>

definition phase2_grade ::
  "config \<Rightarrow> (string \<times> (string \<times> string) list) list \<Rightarrow> (string \<times> (string \<times> string) list) list
     \<Rightarrow> question list \<Rightarrow> row list \<Rightarrow> generator \<times> message list" where
  "phase2_grade cfg keys mappings qs rows =
     (let generator = init cfg;
          generator = generator\<lparr> variant_answer_keys := keys, variant_question_mappings := mappings \<rparr>;
          generator = load_questions qs generator;
          generator = generator\<lparr> student_responses := Some rows \<rparr>
      in correct_tests generator)"



section \<open>Variant generation\<close>

text \<open>
  The process-wide random source is a sequence of numbers and a read position;
  \<open>randbelow n\<close> draws the next number, reduced below \<open>n\<close>. \<open>random.shuffle\<close> is the
  library's loop: for \<open>i\<close> from the last index down to 1, exchange positions \<open>i\<close> and
  \<open>randbelow (i + 1)\<close>.
\<close>

type_synonym rng = "(nat \<Rightarrow> nat) \<times> nat"

definition randbelow :: "nat \<Rightarrow> rng \<Rightarrow> nat \<times> rng" where
  "randbelow n g = (case g of (f, k) \<Rightarrow> (f k mod n, (f, Suc k)))"

definition swap :: "nat \<Rightarrow> nat \<Rightarrow> 'a list \<Rightarrow> 'a list" where
  "swap i j x = x[i := x ! j, j := x ! i]"

fun shuffle_loop :: "nat \<Rightarrow> 'a list \<Rightarrow> rng \<Rightarrow> 'a list \<times> rng" where
  "shuffle_loop 0 x g = (x, g)"
| "shuffle_loop (Suc i) x g =
     (case randbelow (Suc i + 1) g of (j, g') \<Rightarrow> shuffle_loop i (swap (Suc i) j x) g')"

definition shuffle :: "'a list \<Rightarrow> rng \<Rightarrow> 'a list \<times> rng" where
  "shuffle x g = shuffle_loop (length x - 1) x g"

text \<open>\<open>for question in variant_questions: random.shuffle(question["answers"])\<close>\<close>

fun shuffle_answers :: "question list \<Rightarrow> rng \<Rightarrow> question list \<times> rng" where
  "shuffle_answers [] g = ([], g)"
| "shuffle_answers (q # qs) g =
     (case shuffle (answers q) g of (ans, g1) \<Rightarrow>
        (case shuffle_answers qs g1 of (qs', g2) \<Rightarrow> (q\<lparr> answers := ans \<rparr> # qs', g2)))"

text \<open>\<open>str\<close> of a non-negative integer.\<close>

definition digit_char :: "nat \<Rightarrow> char" where
  "digit_char d = ''0123456789'' ! d"

function str_nat :: "nat \<Rightarrow> string" where
  "str_nat n = (if n < 10 then [digit_char n] else str_nat (n div 10) @ [digit_char (n mod 10)])"
  by pat_completeness auto
termination
  by (relation "measure id") auto

declare str_nat.simps [simp del]

fun generate_loop :: "question list \<Rightarrow> nat list \<Rightarrow> rng \<Rightarrow> variant list \<times> rng" where
  "generate_loop qd [] g = ([], g)"
| "generate_loop qd (i # ns) g =
     (case shuffle qd g of (variant_questions, g1) \<Rightarrow>
        (case shuffle_answers variant_questions g1 of (variant_questions', g2) \<Rightarrow>
           (case generate_loop qd ns g2 of (vs, g3) \<Rightarrow>
              (\<lparr> variant_id = str_nat (i + 1), questions = variant_questions' \<rparr> # vs, g3))))"

definition generate_test_variants :: "generator \<Rightarrow> int \<Rightarrow> rng \<Rightarrow> variant list \<times> rng" where
  "generate_test_variants self num_variants g =
     (if questions_data self = [] then ([], g)
      else generate_loop (questions_data self) [0..<nat num_variants] g)"

section \<open>Variant selection: \<open>select_best_variants\<close>\<close>








section \<open>Answer keys and phase 1 of \<open>main\<close>\<close>









section \<open>Notions used to state the properties of grading\<close>

text \<open>
  The three outcomes of an answer, in the words of the specification. The student's answer
  is the text of the cell without surrounding white space, empty when the cell has no value
  or the row lacks the column; it is blank when empty, correct when it equals the registry's
  label up to case, wrong otherwise. A column outside the registry has no outcome.
\<close>

datatype outcome = Blank | Correct | Wrong

definition cell_text :: "row \<Rightarrow> string \<Rightarrow> string" where
  "cell_text r col = (case row_get r col of Some (Val s) \<Rightarrow> strip s | _ \<Rightarrow> [])"

definition classify :: "row \<Rightarrow> string \<Rightarrow> string \<Rightarrow> outcome" where
  "classify r col label =
     (if cell_text r col = [] then Blank
      else if upper (cell_text r col) = upper label then Correct else Wrong)"

definition outcome_of :: "(string \<times> string) list \<Rightarrow> (string \<times> string) list \<Rightarrow> row \<Rightarrow> string \<Rightarrow> outcome option" where
  "outcome_of key_mapping question_mapping r col =
     (case (map_of key_mapping col, map_of question_mapping col) of
        (Some label, Some sh) \<Rightarrow> Some (classify r col label)
      | _ \<Rightarrow> None)"









section \<open>Notions used to state the properties of generation\<close>

text \<open>A question of a variant against the bank's: the same but for the order of its answers.\<close>

definition same_question :: "question \<Rightarrow> question \<Rightarrow> bool" where
  "same_question q' q = (q'\<lparr> answers := answers q \<rparr> = q \<and> mset (answers q') = mset (answers q))"





section \<open>Example inputs\<close>

definition ex_config :: config where
  "ex_config = \<lparr> cfg_default_correct_score = None, cfg_default_wrong_score = None,
     cfg_default_no_answer_score = None, cfg_passing_threshold = None, cfg_num_variants = Some 2,
     cfg_num_potential_variants = Some 3, cfg_choice_label_format = None \<rparr>"









text \<open>
  A phase-2 run: the configuration sets the default score of a correct answer to 5, the bank
  row of sheet \<open>S1\<close> carries \<open>Punteggio corretta\<close> 10, and one student answers the only
  question correctly.
\<close>

definition override_config :: config where
  "override_config = ex_config\<lparr> cfg_default_correct_score := Some 5 \<rparr>"

definition override_question :: question where
  "override_question = \<lparr> question_text = ''Q'', sheet_name = ''S1'', num_columns_alternatives = 1,
     answers = [\<lparr> ans_text = ''yes'', is_correct = True \<rparr>, \<lparr> ans_text = ''no'', is_correct = False \<rparr>],
     punteggio_corretta = Some 10, punteggio_errata = None, punteggio_non_data = None \<rparr>"

definition override_row :: row where
  "override_row = [(''student_id'', Val ''s1''), (''variant_id'', Val ''1''), (''1'', Val ''A'')]"



text \<open>Three students of variant 1 answer its first question: one correctly, two wrongly.\<close>

definition ex_three_rows :: "row list" where
  "ex_three_rows =
     [[(''student_id'', Val ''s1''), (''variant_id'', Val ''1''), (''1'', Val ''A'')],
      [(''student_id'', Val ''s2''), (''variant_id'', Val ''1''), (''1'', Val ''B'')],
      [(''student_id'', Val ''s3''), (''variant_id'', Val ''1''), (''1'', Val ''C'')]]"

definition ex_three_graded :: generator where
  "ex_three_graded = fst (phase2_grade ex_config [(''1'', [(''1'', ''A'')])] [(''1'', [(''1'', ''S1'')])]
     [override_question] ex_three_rows)"


definition ex_three_stats :: qstats where
  "ex_three_stats = empty_stats\<lparr> n_correct := 1, n_wrong := 2 \<rparr>"

text \<open>A bank of two questions, a random source and the pool of three candidates drawn from them.\<close>

definition ex_bank :: "question list" where
  "ex_bank =
     [override_question,
      \<lparr> question_text = ''R'', sheet_name = ''S2'', num_columns_alternatives = 1,
        answers = [\<lparr> ans_text = ''one'', is_correct = True \<rparr>, \<lparr> ans_text = ''two'', is_correct = False \<rparr>,
                   \<lparr> ans_text = ''three'', is_correct = False \<rparr>],
        punteggio_corretta = None, punteggio_errata = None, punteggio_non_data = None \<rparr>]"

definition ex_rng :: rng where
  "ex_rng = (\<lambda>i. i, 0)"

definition ex_loaded :: generator where
  "ex_loaded = load_questions ex_bank (init ex_config)"

definition ex_pool :: "variant list" where
  "ex_pool = fst (generate_test_variants ex_loaded 3 ex_rng)"


section \<open>Lemmas on the grading loop\<close>



lemma grade_col_absent:
  "outcome_of km qm r c = None \<Longrightarrow> grade_col self km qm qdm r acc c = acc"
  by (auto simp: grade_col_def outcome_of_def split: option.splits)


























lemma correct_row_printed:
  "correct_row self (res, st, pr) r =
     (case correct_row self (res, st, []) r of (a, b, c) \<Rightarrow> (a, b, pr @ c))"
  by (auto simp: correct_row_def Let_def split: option.splits)

lemma foldl_correct_row_printed:
  "foldl (correct_row self) (res, st, pr) rows =
     (case foldl (correct_row self) (res, st, []) rows of (a, b, c) \<Rightarrow> (a, b, pr @ c))"
proof (induction rows arbitrary: res st pr)
  case Nil
  show ?case by simp
next
  case (Cons r rows)
  obtain a b c where step: "correct_row self (res, st, []) r = (a, b, c)"
    by (cases "correct_row self (res, st, []) r") auto
  then have step': "correct_row self (res, st, pr) r = (a, b, pr @ c)"
    by (simp add: correct_row_printed[of self res st pr])
  obtain a' b' c' where rest: "foldl (correct_row self) (a, b, []) rows = (a', b', c')"
    by (cases "foldl (correct_row self) (a, b, []) rows") auto
  have "foldl (correct_row self) (a, b, pr @ c) rows = (a', b', (pr @ c) @ c')"
    using Cons.IH[of a b "pr @ c"] rest by simp
  moreover have "foldl (correct_row self) (a, b, c) rows = (a', b', c @ c')"
    using Cons.IH[of a b c] rest by simp
  ultimately show ?case by (simp add: step step')
qed







section \<open>Classification of answers\<close>







section \<open>Unknown variants and repeated students\<close>







lemma correct_tests_unfold:
  assumes "student_responses self = Some rows"
  shows "correct_tests self =
     (self\<lparr> test_results := fst (foldl (correct_row self) (test_results self, [], []) rows),
            question_analytics := fst (snd (foldl (correct_row self) (test_results self, [], []) rows)) \<rparr>,
      snd (snd (foldl (correct_row self) (test_results self, [], []) rows)))"
  using assms
  by (cases "foldl (correct_row self) (test_results self, [], []) rows") (simp add: correct_tests_def)












section \<open>Scoring weights in phase 2\<close>

lemmas grading_defs = correct_tests_def correct_row_def row_student_id_def row_variant_id_def
  row_get_def strip_def is_space_def grade_row_def answer_cols_def row_index_def
  question_data_map_def init_acc_def grade_col_def score_or_default_def upper_def upper_char_def
  stats_bump_def empty_stats_def row_result_def round2_def init_def load_config_scores_def

lemma phase2_state:
  "variants (fst (phase2_grade cfg keys mappings qs rows)) = []
   \<and> default_correct_score (fst (phase2_grade cfg keys mappings qs rows)) = 4
   \<and> default_wrong_score (fst (phase2_grade cfg keys mappings qs rows)) = 0
   \<and> default_no_answer_score (fst (phase2_grade cfg keys mappings qs rows)) = 1"
  by (simp add: phase2_grade_def correct_tests_unfold init_def load_questions_def Let_def
        split: prod.splits)

text \<open>
  C1. At this input phase 2 scores the correct answer with 4: neither the 10 of the
  question's own \<open>punteggio_corretta\<close> nor the 5 of the configuration.
\<close>

theorem phase2_ignores_override:
  "punteggio_corretta override_question = Some 10
   \<and> cfg_default_correct_score override_config = Some 5
   \<and> map (\<lambda>(sid, res). (sid, correct_count res, correct_score res, max_possible_score res,
                          map (\<lambda>(col, d). (col, points d)) (res_answers res)))
        (test_results (fst (phase2_grade override_config [(''1'', [(''1'', ''A'')])]
           [(''1'', [(''1'', ''S1'')])] [override_question] [override_row])))
      = [(Some (Val ''s1''), 1, 4, 4, [(''1'', 4)])]"
  by (simp add: phase2_grade_def load_questions_def override_config_def override_question_def
        override_row_def ex_config_def grading_defs Let_def)

section \<open>Percentage and z-score\<close>













section \<open>Repeating the analysis\<close>

lemma student_metrics_fields:
  "total_score (student_metrics s a d r) = total_score r"
  "percentage (student_metrics s a d r) = percentage r"
  "correct_score (student_metrics s a d r) = correct_score r"
  "wrong_score (student_metrics s a d r) = wrong_score r"
  "blank_score (student_metrics s a d r) = blank_score r"
  "correct_count (student_metrics s a d r) = correct_count r"
  "wrong_count (student_metrics s a d r) = wrong_count r"
  "blank_count (student_metrics s a d r) = blank_count r"
  "res_answers (student_metrics s a d r) = res_answers r"
  by (simp_all add: student_metrics_def Let_def)

lemma student_metrics_idem:
  "student_metrics s a d (student_metrics s a d r) = student_metrics s a d r"
  by (simp add: student_metrics_def Let_def)

lemma summary_student_metrics:
  "summary (map (student_metrics s a d) rs) t = summary rs t"
  by (simp add: summary_def o_def student_metrics_fields)

lemma analyze_results_step:
  assumes "tr \<noteq> []" "test_results x = tr"
  shows "analyze_results x =
     x\<lparr> analysis_results := Some (summary (map snd tr) (passing_threshold x * 100)),
        test_results := map (\<lambda>(student_id, result). (student_id,
            student_metrics (map total_score (map snd tr)) (np_mean (map total_score (map snd tr)))
              (np_std (map total_score (map snd tr))) result)) tr \<rparr>"
  using assms by (simp add: analyze_results_def Let_def)

lemma analyze_results_idem: "analyze_results (analyze_results self) = analyze_results self"
proof (cases "test_results self = []")
  case True
  then show ?thesis by (simp add: analyze_results_def)
next
  case False
  let ?rs = "map snd (test_results self)"
  let ?s = "map total_score ?rs"
  let ?f = "student_metrics ?s (np_mean ?s) (np_std ?s)"
  let ?tr = "map (\<lambda>(student_id, result). (student_id, ?f result)) (test_results self)"
  define a1 where "a1 = self\<lparr> analysis_results := Some (summary ?rs (passing_threshold self * 100)),
     test_results := ?tr \<rparr>"
  have once: "analyze_results self = a1"
    unfolding a1_def by (rule analyze_results_step[OF False refl])
  have tr_a1: "test_results a1 = ?tr" by (simp add: a1_def)
  have pt: "passing_threshold a1 = passing_threshold self" by (simp add: a1_def)
  have ne: "?tr \<noteq> []" using False by simp
  have rs': "map snd ?tr = map ?f ?rs"
    by (simp add: o_def split_def)
  have s': "map total_score (map ?f ?rs) = ?s"
    by (simp add: o_def student_metrics_fields)
  have tr': "map (\<lambda>(student_id, result). (student_id, ?f result)) ?tr = ?tr"
    by (simp add: o_def split_def student_metrics_idem)
  have "analyze_results a1 =
     a1\<lparr> analysis_results := Some (summary (map snd ?tr) (passing_threshold a1 * 100)),
        test_results := map (\<lambda>(student_id, result). (student_id,
            student_metrics (map total_score (map snd ?tr)) (np_mean (map total_score (map snd ?tr)))
              (np_std (map total_score (map snd ?tr))) result)) ?tr \<rparr>"
    by (rule analyze_results_step[OF ne tr_a1])
  also have "\<dots> = a1\<lparr> analysis_results := Some (summary ?rs (passing_threshold self * 100)),
        test_results := ?tr \<rparr>"
    unfolding rs' s' summary_student_metrics pt tr' ..
  also have "\<dots> = a1" by (simp add: a1_def)
  finally show ?thesis by (simp only: once)
qed



lemma analyze_question_reads:
  "test_results x = test_results y \<Longrightarrow> analyze_question x = analyze_question y"
  by (simp add: fun_eq_iff analyze_question_def Let_def)

lemma analyze_question_idem:
  "analyze_question self sh (analyze_question self sh stats) = analyze_question self sh stats"
  by (simp add: analyze_question_def Let_def)

lemma analyze_questions_alt:
  "analyze_questions self = self\<lparr> question_analytics :=
     map (\<lambda>(sh, stats). (sh, analyze_question self sh stats)) (question_analytics self) \<rparr>"
  by (simp add: analyze_questions_def)

lemma analyze_questions_idem: "analyze_questions (analyze_questions self) = analyze_questions self"
proof -
  let ?q = "map (\<lambda>(sh, stats). (sh, analyze_question self sh stats)) (question_analytics self)"
  have same: "analyze_question (self\<lparr> question_analytics := ?q \<rparr>) = analyze_question self"
    by (rule analyze_question_reads) simp
  have "map (\<lambda>(sh, stats). (sh, analyze_question self sh stats)) ?q = ?q"
    by (simp add: o_def split_def analyze_question_idem)
  then show ?thesis
    by (simp add: analyze_questions_alt[of "self\<lparr> question_analytics := ?q \<rparr>"]
          analyze_questions_alt[of self] same)
qed

lemma analyze_results_analytics:
  "analyze_results (self\<lparr> question_analytics := q \<rparr>) = (analyze_results self)\<lparr> question_analytics := q \<rparr>"
  by (simp add: analyze_results_def Let_def)


text \<open>
  C9. \<open>analyze_results\<close> and \<open>analyze_questions\<close> each return their own result unchanged
  when run on it again, and so does the pair run in the order of phase 2: the aggregate
  \<open>analysis_results\<close>, every student's z-score, percentile and stanine and every question's
  derived values are those of the first run.
\<close>

theorem analysis_idempotent:
  "analyze_results (analyze_results self) = analyze_results self
   \<and> analyze_questions (analyze_questions self) = analyze_questions self
   \<and> analyze_questions (analyze_results (analyze_questions (analyze_results self)))
       = analyze_questions (analyze_results self)"
proof -
  let ?a = "analyze_results self"
  let ?q = "map (\<lambda>(sh, stats). (sh, analyze_question ?a sh stats)) (question_analytics ?a)"
  have run: "analyze_questions ?a = ?a\<lparr> question_analytics := ?q \<rparr>"
    by (rule analyze_questions_alt)
  have "analyze_results (?a\<lparr> question_analytics := ?q \<rparr>) = ?a\<lparr> question_analytics := ?q \<rparr>"
    by (simp only: analyze_results_analytics analyze_results_idem)
  then have "analyze_questions (analyze_results (analyze_questions ?a)) = analyze_questions (analyze_questions ?a)"
    by (simp only: run)
  then show ?thesis
    by (simp only: analyze_questions_idem analyze_results_idem)
qed

lemma ex_three_graded_analytics:
  "question_analytics ex_three_graded = [(''S1'', ex_three_stats)]"
  by (simp add: ex_three_graded_def ex_three_stats_def phase2_grade_def load_questions_def
        ex_three_rows_def ex_config_def grading_defs Let_def)

lemma ex_three_graded_results: "map fst (test_results ex_three_graded)
    = [Some (Val ''s1''), Some (Val ''s2''), Some (Val ''s3'')]"
  by (simp add: ex_three_graded_def phase2_grade_def load_questions_def
        ex_three_rows_def ex_config_def grading_defs Let_def)


theorem analysis_idempotent_witness:
  "analyze_questions (analyze_results (analyze_questions (analyze_results ex_three_graded)))
       = analyze_questions (analyze_results ex_three_graded)
   \<and> length (test_results ex_three_graded) = 3 \<and> length (question_analytics ex_three_graded) = 1"
proof -
  have "length (map fst (test_results ex_three_graded)) = 3"
    by (simp only: ex_three_graded_results) simp
  then have "length (test_results ex_three_graded) = 3" by simp
  moreover have "length (question_analytics ex_three_graded) = 1"
    by (simp add: ex_three_graded_analytics)
  ultimately show ?thesis using analysis_idempotent[of ex_three_graded] by blast
qed

section \<open>Difficulty index\<close>










section \<open>Generated variants\<close>

lemma randbelow_less: "0 < n \<Longrightarrow> fst (randbelow n g) < n"
  by (cases g) (simp add: randbelow_def)

lemma mset_swap_list: "i < length x \<Longrightarrow> j < length x \<Longrightarrow> mset (swap i j x) = mset x"
  unfolding swap_def by (rule mset_swap)

lemma length_swap: "length (swap i j x) = length x"
  by (simp add: swap_def)

lemma mset_shuffle_loop: "n < length x \<Longrightarrow> mset (fst (shuffle_loop n x g)) = mset x"
proof (induction n arbitrary: x g)
  case 0
  show ?case by simp
next
  case (Suc i)
  obtain j g' where draw: "randbelow (Suc i + 1) g = (j, g')"
    by (cases "randbelow (Suc i + 1) g") auto
  have "j < Suc i + 1" using randbelow_less[of "Suc i + 1" g] draw by simp
  with Suc.prems have j: "j < length x" by simp
  have "mset (fst (shuffle_loop i (swap (Suc i) j x) g')) = mset (swap (Suc i) j x)"
    using Suc.prems by (intro Suc.IH) (simp add: length_swap)
  also have "\<dots> = mset x" using Suc.prems j by (rule mset_swap_list)
  finally show ?case using draw by simp
qed

lemma mset_shuffle: "mset (fst (shuffle x g)) = mset x"
  by (cases x) (simp_all add: shuffle_def mset_shuffle_loop)

lemma shuffle_answers_same:
  "list_all2 same_question (fst (shuffle_answers qs g)) qs"
proof (induction qs arbitrary: g)
  case Nil
  show ?case by simp
next
  case (Cons q qs)
  obtain ans g1 where a: "shuffle (answers q) g = (ans, g1)"
    by (cases "shuffle (answers q) g") auto
  obtain qs' g2 where r: "shuffle_answers qs g1 = (qs', g2)"
    by (cases "shuffle_answers qs g1") auto
  have "mset ans = mset (answers q)" using mset_shuffle[of "answers q" g] a by simp
  then have "same_question (q\<lparr> answers := ans \<rparr>) q" by (simp add: same_question_def)
  moreover have "list_all2 same_question qs' qs" using Cons.IH[of g1] r by simp
  ultimately show ?case by (simp add: a r)
qed

lemma generate_loop_variants:
  "v \<in> set (fst (generate_loop qd ns g)) \<Longrightarrow>
     \<exists>p. mset p = mset qd \<and> list_all2 same_question (questions v) p"
proof (induction ns arbitrary: g)
  case Nil
  then show ?case by simp
next
  case (Cons i ns)
  obtain vq g1 where s: "shuffle qd g = (vq, g1)"
    by (cases "shuffle qd g") auto
  obtain vq' g2 where a: "shuffle_answers vq g1 = (vq', g2)"
    by (cases "shuffle_answers vq g1") auto
  obtain vs g3 where r: "generate_loop qd ns g2 = (vs, g3)"
    by (cases "generate_loop qd ns g2") auto
  from Cons.prems have "v = \<lparr> variant_id = str_nat (i + 1), questions = vq' \<rparr> \<or> v \<in> set vs"
    by (simp add: s a r)
  then show ?case
  proof
    assume "v = \<lparr> variant_id = str_nat (i + 1), questions = vq' \<rparr>"
    moreover have "mset vq = mset qd" using mset_shuffle[of qd g] s by simp
    moreover have "list_all2 same_question vq' vq" using shuffle_answers_same[of vq g1] a by simp
    ultimately show ?thesis by auto
  next
    assume "v \<in> set vs"
    then show ?thesis using Cons.IH[of g2] r by simp
  qed
qed

lemma same_question_sheet: "list_all2 same_question qs p \<Longrightarrow> map sheet_name qs = map sheet_name p"
proof (induction rule: list_all2_induct)
  case Nil
  show ?case by simp
next
  case (Cons q qs q' p)
  from Cons.hyps(1) have "sheet_name (q\<lparr> answers := answers q' \<rparr>) = sheet_name q'"
    by (simp only: same_question_def)
  then show ?case using Cons.IH by simp
qed

text \<open>
  C8. Every generated variant is a permutation of the bank, each question carrying its own
  answers in some order: the variant has as many questions as the bank, the multiset of its
  sheet names is the bank's, and when the bank's sheet names are distinct (the sheets of a
  workbook) each occurs in the variant exactly once.
\<close>

theorem variant_is_permutation:
  assumes "v \<in> set (fst (generate_test_variants self num_variants g))"
  shows "(\<exists>p. mset p = mset (questions_data self) \<and> list_all2 same_question (questions v) p)
       \<and> length (questions v) = length (questions_data self)
       \<and> mset (map sheet_name (questions v)) = mset (map sheet_name (questions_data self))
       \<and> (distinct (map sheet_name (questions_data self)) \<longrightarrow> distinct (map sheet_name (questions v)))"
proof -
  from assms have "v \<in> set (fst (generate_loop (questions_data self) [0..<nat num_variants] g))"
    by (simp add: generate_test_variants_def split: if_splits)
  then obtain p where p: "mset p = mset (questions_data self)" "list_all2 same_question (questions v) p"
    using generate_loop_variants by blast
  have names: "map sheet_name (questions v) = map sheet_name p"
    using p(2) by (rule same_question_sheet)
  have "length (questions v) = length p" using p(2) by (rule list_all2_lengthD)
  also have "\<dots> = length (questions_data self)" using p(1) by (rule mset_eq_length)
  finally have len: "length (questions v) = length (questions_data self)" .
  have ms: "mset (map sheet_name (questions v)) = mset (map sheet_name (questions_data self))"
    unfolding names using p(1) by (metis mset_map)
  have "distinct (map sheet_name (questions v))" if "distinct (map sheet_name (questions_data self))"
    using that ms by (metis mset_eq_imp_distinct_iff)
  with p len ms show ?thesis by blast
qed


lemma ex_pool_ids: "map variant_id ex_pool = [''1'', ''2'', ''3'']"
  unfolding ex_pool_def by code_simp


lemma ex_loaded_bank: "questions_data ex_loaded = ex_bank"
  by (simp add: ex_loaded_def load_questions_def)

theorem variant_is_permutation_witness:
  "last ex_pool \<in> set (fst (generate_test_variants ex_loaded 3 ex_rng))
   \<and> map sheet_name (questions_data ex_loaded) = [''S1'', ''S2'']
   \<and> length (questions (last ex_pool)) = 2
   \<and> mset (map sheet_name (questions (last ex_pool))) = {#''S1'', ''S2''#}
   \<and> distinct (map sheet_name (questions (last ex_pool)))"
proof -
  have "ex_pool \<noteq> []" using ex_pool_ids by auto
  then have mem: "last ex_pool \<in> set (fst (generate_test_variants ex_loaded 3 ex_rng))"
    by (simp add: ex_pool_def)
  have names: "map sheet_name (questions_data ex_loaded) = [''S1'', ''S2'']"
    by (simp add: ex_loaded_bank ex_bank_def override_question_def)
  from variant_is_permutation[OF mem] names show ?thesis
    using mem by (simp add: ex_loaded_bank ex_bank_def)
qed

section \<open>Selection of the best variants\<close>
















section \<open>Phase 1 without variants\<close>








end
